theory Spec2Isabelle
  imports Main "HOL-Library.Sublist"
begin

section \<open>Strings as the matcher uses them\<close>

text \<open>
  Domains and patterns are JavaScript strings. Host names produced by the URL parser are
  ASCII, so a string is a list of \<^typ>\<open>char\<close> and \<open>toLowerCase\<close> maps the
  letters A-Z to a-z and leaves every other character alone.
\<close>

definition lowerChar :: "char \<Rightarrow> char" where
  "lowerChar c =
     (case map_of (zip ''ABCDEFGHIJKLMNOPQRSTUVWXYZ'' ''abcdefghijklmnopqrstuvwxyz'') c of
        Some l \<Rightarrow> l
      | None \<Rightarrow> c)"

definition toLowerCase :: "string \<Rightarrow> string" where
  "toLowerCase s = map lowerChar s"

text \<open>\<open>s.startsWith(p)\<close>, \<open>s.endsWith(p)\<close> and \<open>s.slice(n)\<close> for \<open>n \<ge> 0\<close>.\<close>

definition startsWith :: "string \<Rightarrow> string \<Rightarrow> bool" where
  "startsWith s p = (take (length p) s = p)"

definition endsWith :: "string \<Rightarrow> string \<Rightarrow> bool" where
  "endsWith s p = (length p \<le> length s \<and> drop (length s - length p) s = p)"

definition slice :: "string \<Rightarrow> nat \<Rightarrow> string" where
  "slice s n = drop n s"

text \<open>\<open>s.replace(/^www\./, "")\<close>: one leading \<open>www.\<close> is removed, if there is one.\<close>

definition stripWww :: "string \<Rightarrow> string" where
  "stripWww s = (if startsWith s ''www.'' then slice s 4 else s)"

section \<open>Domain matcher\<close>

definition domainMatchesPattern :: "string \<Rightarrow> string \<Rightarrow> bool" where
  "domainMatchesPattern domain pattern =
     (let normalizedPattern = stripWww (toLowerCase pattern) in
      if startsWith normalizedPattern ''*.'' then
        (let baseDomain = slice normalizedPattern 2 in
         domain = baseDomain \<or> endsWith domain (''.'' @ baseDomain))
      else
        (domain = normalizedPattern \<or> endsWith domain (''.'' @ normalizedPattern)))"

section \<open>Persisted data\<close>

text \<open>
  The records of \<open>utils/types\<close>, with the fields the operations below read or write.
  Time stamps are milliseconds as returned by \<open>Date.now()\<close>; durations are minutes.
  Field names carry the record's name where two records of the source share a name.
\<close>

record BlockedSite =
  site_id :: string
  site_domain :: string
  category :: "string option"
  createdAt :: int
  blockCount :: int

datatype SessionType = Focus | Break

record FocusSession =
  session_id :: string
  startTime :: int
  endTime :: "int option"
  duration :: int
  completed :: bool
  session_type :: SessionType

record UserSettings =
  enabled :: bool
  notificationsEnabled :: bool

record Stats =
  totalFocusTime :: int
  totalBlocks :: int
  currentStreak :: int
  longestStreak :: int
  sessionsCompleted :: int

record ScheduleSlot =
  slot_id :: string
  slot_day :: nat
  slot_startTime :: string
  slot_endTime :: string
  slot_enabled :: bool

record WeeklySchedule =
  schedule_enabled :: bool
  slots :: "ScheduleSlot list"

record PomodoroState =
  pomodoro_enabled :: bool
  workDuration :: int
  breakDuration :: int
  longBreakDuration :: int
  sessionsUntilLongBreak :: int
  currentCycle :: int
  isOnBreak :: bool
  totalCyclesCompleted :: int

record PausedSession =
  pausedAt :: int
  remainingSeconds :: int

text \<open>
  \<open>chrome.storage.local\<close> with the keys the background worker and the timer use, and
  the one alarm \<open>flowblock-session-end\<close>, kept as the time at which it is due
  (\<open>None\<close>: no alarm pending). Records that the getters complete with defaults
  (settings, stats, pomodoro state, weekly schedule) are always present.
\<close>

record Storage =
  blockedSites :: "BlockedSite list"
  settings :: UserSettings
  stats :: Stats
  focusSessions :: "FocusSession list"
  currentSession :: "FocusSession option"
  pausedSession :: "PausedSession option"
  pomodoroState :: PomodoroState
  weeklySchedule :: WeeklySchedule
  temporaryBreaks :: "string \<rightharpoonup> int"
  alarm :: "int option"

text \<open>
  What the browser supplies: the host name \<open>new URL(url).hostname\<close> (\<open>None\<close> when
  the constructor throws) and the extension's own base address
  \<open>chrome.runtime.getURL("")\<close>.
\<close>

record Platform =
  urlHostname :: "string \<Rightarrow> string option"
  extensionUrl :: string

text \<open>The local clock as \<open>new Date()\<close> shows it: weekday 0-6, hours, minutes.\<close>

record Clock =
  getDay :: nat
  getHours :: nat
  getMinutes :: nat

datatype Error =
  SessionNotFound
  | NoActiveSessionToPause
  | SessionAlreadyEnded
  | NoActiveSessionToResume
  | NotPaused

section \<open>Schedule evaluator\<close>

text \<open>
  \<open>n.toString()\<close> for a natural number (\<open>digitChar\<close> is only applied to digits below
  ten), and \<open>padStart(2, "0")\<close>.
\<close>

definition digitChar :: "nat \<Rightarrow> char" where
  "digitChar d = ''0123456789'' ! d"

fun natToString :: "nat \<Rightarrow> string" where
  "natToString n =
     (if n < 10 then [digitChar n] else natToString (n div 10) @ [digitChar (n mod 10)])"

definition padStart2 :: "string \<Rightarrow> string" where
  "padStart2 s = replicate (2 - length s) CHR ''0'' @ s"

definition currentTimeString :: "Clock \<Rightarrow> string" where
  "currentTimeString now =
     padStart2 (natToString (getHours now)) @ '':'' @ padStart2 (natToString (getMinutes now))"

text \<open>
  \<open>a <= b\<close> on JavaScript strings: code unit by code unit, a proper prefix being smaller.
\<close>

fun stringLe :: "string \<Rightarrow> string \<Rightarrow> bool" where
  "stringLe [] ys = True"
| "stringLe (x # xs) [] = False"
| "stringLe (x # xs) (y # ys) =
     ((of_char x :: nat) < of_char y \<or> (x = y \<and> stringLe xs ys))"

definition slotMatches :: "nat \<Rightarrow> string \<Rightarrow> ScheduleSlot \<Rightarrow> bool" where
  "slotMatches currentDay currentTime slot =
     (if \<not> slot_enabled slot \<or> slot_day slot \<noteq> currentDay then False
      else stringLe (slot_startTime slot) currentTime \<and> stringLe currentTime (slot_endTime slot))"

definition isWithinSchedule :: "Clock \<Rightarrow> WeeklySchedule \<Rightarrow> bool" where
  "isWithinSchedule now schedule =
     (if \<not> schedule_enabled schedule \<or> length (slots schedule) = 0 then True
      else list_ex (slotMatches (getDay now) (currentTimeString now)) (slots schedule))"

section \<open>Blocking decision\<close>

definition extractDomain :: "Platform \<Rightarrow> string \<Rightarrow> string" where
  "extractDomain pf url =
     (case urlHostname pf url of
        Some hostname \<Rightarrow> stripWww (toLowerCase hostname)
      | None \<Rightarrow> [])"

text \<open>
  \<open>isUrlBlocked\<close> returns the verdict and the storage it leaves: the only write is the
  removal of an expired break. A break time is a number, truthy when it is not zero.
\<close>

definition isUrlBlocked ::
  "Platform \<Rightarrow> Clock \<Rightarrow> int \<Rightarrow> string \<Rightarrow> Storage \<Rightarrow> bool \<times> Storage" where
  "isUrlBlocked pf clock now url s =
     (let domain = extractDomain pf url in
      if domain = [] then (False, s)
      else if startsWith url (extensionUrl pf) then (False, s)
      else if \<not> enabled (settings s) then (False, s)
      else if schedule_enabled (weeklySchedule s) \<and> \<not> isWithinSchedule clock (weeklySchedule s)
        then (False, s)
      else
        (case temporaryBreaks s domain of
           None \<Rightarrow>
             (list_ex (\<lambda>site. domainMatchesPattern domain (site_domain site)) (blockedSites s), s)
         | Some breakUntil \<Rightarrow>
             if breakUntil \<noteq> 0 \<and> now < breakUntil then (False, s)
             else
               (let s' = (if breakUntil \<noteq> 0 \<and> now \<ge> breakUntil
                          then s\<lparr>temporaryBreaks := (temporaryBreaks s)(domain := None)\<rparr>
                          else s)
                in (list_ex (\<lambda>site. domainMatchesPattern domain (site_domain site))
                      (blockedSites s'), s'))))"

text \<open>
  The loop of \<open>incrementBlockCount\<close>: the first site whose pattern matches gets its
  counter raised and the loop stops; \<open>None\<close> when it runs to the end without a match.
\<close>

fun incrementFirstMatch :: "string \<Rightarrow> BlockedSite list \<Rightarrow> BlockedSite list option" where
  "incrementFirstMatch domain [] = None"
| "incrementFirstMatch domain (site # rest) =
     (if domainMatchesPattern domain (site_domain site)
      then Some (site\<lparr>blockCount := blockCount site + 1\<rparr> # rest)
      else map_option (\<lambda>rest'. site # rest') (incrementFirstMatch domain rest))"

definition incrementBlockCount :: "Platform \<Rightarrow> string \<Rightarrow> Storage \<Rightarrow> Storage" where
  "incrementBlockCount pf url s =
     (let domain = extractDomain pf url in
      case incrementFirstMatch domain (blockedSites s) of
        None \<Rightarrow> s
      | Some sites' \<Rightarrow>
          (let s1 = s\<lparr>blockedSites := sites'\<rparr> in
           s1\<lparr>stats := (stats s1)\<lparr>totalBlocks := totalBlocks (stats s) + 1\<rparr>\<rparr>))"

text \<open>The navigation listener, for the main frame: decide, and count the block on a deny.\<close>

definition onBeforeNavigate ::
  "Platform \<Rightarrow> Clock \<Rightarrow> int \<Rightarrow> string \<Rightarrow> Storage \<Rightarrow> bool \<times> Storage" where
  "onBeforeNavigate pf clock now url s =
     (case isUrlBlocked pf clock now url s of
        (shouldBlock, s1) \<Rightarrow>
          if shouldBlock then (True, incrementBlockCount pf url s1) else (False, s1))"

section \<open>Session timer\<close>

text \<open>
  \<open>Math.round(a / b)\<close> for integers \<open>a\<close> and \<open>b > 0\<close>: the nearest integer, a half
  going up.
\<close>

definition roundDiv :: "int \<Rightarrow> int \<Rightarrow> int" where
  "roundDiv a b = (2 * a + b) div (2 * b)"

text \<open>
  \<open>new Date(t).toDateString()\<close> names the calendar day of \<open>t\<close>. Two such strings are
  compared for equality only, so the day is kept as its number; the clock's zone is taken
  to be UTC.
\<close>

definition toDateString :: "int \<Rightarrow> int" where
  "toDateString t = t div 86400000"

text \<open>\<open>saveFocusSession\<close>: replace the first stored session with the same id, else append.\<close>

fun saveFocusSession :: "FocusSession \<Rightarrow> FocusSession list \<Rightarrow> FocusSession list" where
  "saveFocusSession session [] = [session]"
| "saveFocusSession session (x # xs) =
     (if session_id x = session_id session then session # xs
      else x # saveFocusSession session xs)"

text \<open>
  Every operation takes the reading of \<open>Date.now()\<close> as \<open>now\<close> (one reading for the
  whole operation), and the identifier that \<open>generateId()\<close> would produce as
  \<open>newId\<close>. An operation that can throw returns the error or its value, together with
  the storage as it is left.
\<close>

definition startFocusSession ::
  "int \<Rightarrow> string \<Rightarrow> int \<Rightarrow> SessionType \<Rightarrow> Storage \<Rightarrow> FocusSession \<times> Storage" where
  "startFocusSession now newId durationMinutes ty s =
     (let s0 = (case currentSession s of
                  Some existingSession \<Rightarrow>
                    s\<lparr>currentSession := None, pausedSession := None, alarm := None\<rparr>
                | None \<Rightarrow> s);
          session = \<lparr>session_id = newId, startTime = now, endTime = None,
                     duration = durationMinutes, completed = False, session_type = ty\<rparr>;
          s1 = s0\<lparr>alarm := Some (now + durationMinutes * 60000)\<rparr>;
          s2 = s1\<lparr>currentSession := Some session\<rparr>;
          s3 = s2\<lparr>focusSessions := saveFocusSession session (focusSessions s2)\<rparr>
      in (session, s3))"

definition endFocusSession ::
  "int \<Rightarrow> string \<Rightarrow> bool \<Rightarrow> Storage \<Rightarrow> (Error + unit) \<times> Storage" where
  "endFocusSession now sessionId completed' s =
     (case currentSession s of
        None \<Rightarrow> (Inl SessionNotFound, s)
      | Some session \<Rightarrow>
          if session_id session \<noteq> sessionId then (Inl SessionNotFound, s)
          else
            (let endTime' = now;
                 actualDurationMinutes = roundDiv (endTime' - startTime session) 60000;
                 updatedSession = session\<lparr>endTime := Some endTime', completed := completed'\<rparr>;
                 s1 = s\<lparr>focusSessions := saveFocusSession updatedSession (focusSessions s)\<rparr>;
                 s2 = s1\<lparr>alarm := None\<rparr>;
                 s3 = s2\<lparr>currentSession := None, pausedSession := None\<rparr>
             in if completed' then
                  (let stats' = stats s3;
                       today = toDateString now;
                       lastSessionDate =
                         (if sessionsCompleted stats' > 0
                          then Some (toDateString (startTime session)) else None);
                       newStreak =
                         (if lastSessionDate \<noteq> Some today then
                            (let yesterday = toDateString (now - 86400000) in
                             if lastSessionDate = Some yesterday
                             then currentStreak stats' + 1 else 1)
                          else currentStreak stats')
                   in (Inr (),
                       s3\<lparr>stats := (stats s3)
                         \<lparr>totalFocusTime := totalFocusTime stats' + actualDurationMinutes,
                          sessionsCompleted := sessionsCompleted stats' + 1,
                          currentStreak := newStreak,
                          longestStreak := max (longestStreak stats') newStreak\<rparr>\<rparr>))
                else (Inr (), s3)))"

definition getCurrentSession :: "Storage \<Rightarrow> FocusSession option" where
  "getCurrentSession s = currentSession s"

definition getTimeRemaining :: "int \<Rightarrow> Storage \<Rightarrow> int" where
  "getTimeRemaining now s =
     (case getCurrentSession s of
        None \<Rightarrow> 0
      | Some session \<Rightarrow>
          (case pausedSession s of
             Some paused \<Rightarrow> remainingSeconds paused
           | None \<Rightarrow>
               (let elapsed = now - startTime session;
                    totalMs = duration session * 60 * 1000;
                    remainingMs = totalMs - elapsed
                in max 0 (roundDiv remainingMs 1000))))"

definition pauseSession :: "int \<Rightarrow> Storage \<Rightarrow> (Error + unit) \<times> Storage" where
  "pauseSession now s =
     (case getCurrentSession s of
        None \<Rightarrow> (Inl NoActiveSessionToPause, s)
      | Some session \<Rightarrow>
          (let remainingSeconds' = getTimeRemaining now s in
           if remainingSeconds' \<le> 0 then (Inl SessionAlreadyEnded, s)
           else
             (let s1 = s\<lparr>alarm := None\<rparr> in
              (Inr (),
               s1\<lparr>pausedSession :=
                    Some \<lparr>pausedAt = now, remainingSeconds = remainingSeconds'\<rparr>\<rparr>))))"

text \<open>
  On resume the alarm is set \<open>remainingSeconds / 60\<close> minutes ahead, which is
  \<open>remainingSeconds * 1000\<close> milliseconds.
\<close>

definition resumeSession :: "int \<Rightarrow> Storage \<Rightarrow> (Error + unit) \<times> Storage" where
  "resumeSession now s =
     (case getCurrentSession s of
        None \<Rightarrow> (Inl NoActiveSessionToResume, s)
      | Some session \<Rightarrow>
          (case pausedSession s of
             None \<Rightarrow> (Inl NotPaused, s)
           | Some paused \<Rightarrow>
               (let s1 = s\<lparr>alarm := Some (now + remainingSeconds paused * 1000)\<rparr>;
                    pauseDuration = now - pausedAt paused;
                    updatedSession = session\<lparr>startTime := startTime session + pauseDuration\<rparr>;
                    s2 = s1\<lparr>currentSession := Some updatedSession\<rparr>
                in (Inr (), s2\<lparr>pausedSession := None\<rparr>))))"

text \<open>The \<open>getTimeRemaining\<close> case of the background worker's \<open>handleMessage\<close>.\<close>

definition handleMessage_getTimeRemaining :: "int \<Rightarrow> Storage \<Rightarrow> int" where
  "handleMessage_getTimeRemaining now s =
     (case getCurrentSession s of
        None \<Rightarrow> 0
      | Some session \<Rightarrow>
          (let elapsed = now - startTime session;
               totalMs = duration session * 60 * 1000;
               remainingMs = max 0 (totalMs - elapsed)
           in roundDiv remainingMs 1000))"

section \<open>Pomodoro cycle\<close>

text \<open>
  \<open>a % b === 0\<close> on integers: the remainder is \<open>NaN\<close> for \<open>b = 0\<close>, and otherwise
  zero exactly when \<open>b\<close> divides \<open>a\<close>.
\<close>

definition remIsZero :: "int \<Rightarrow> int \<Rightarrow> bool" where
  "remIsZero a b = (b \<noteq> 0 \<and> a mod b = 0)"

text \<open>
  The three messages of \<open>handlePomodoroSessionEnd\<close>, with the numbers they quote: the
  cycle of the work session that starts, the sessions completed and the long break's
  length, the cycle completed and the break's length.
\<close>

datatype Message =
  BreakOver int
  | LongBreakMessage int int
  | BreakMessage int int

definition startPomodoroMode ::
  "int \<Rightarrow> string \<Rightarrow> int \<Rightarrow> int \<Rightarrow> int \<Rightarrow> Storage \<Rightarrow> (FocusSession \<times> PomodoroState) \<times> Storage" where
  "startPomodoroMode now newId workDuration' breakDuration' longBreakDuration' s =
     (let pomodoroState' = (pomodoroState s)
            \<lparr>pomodoro_enabled := True,
             workDuration := workDuration',
             breakDuration := breakDuration',
             longBreakDuration := longBreakDuration',
             currentCycle := 1,
             isOnBreak := False,
             totalCyclesCompleted := 0\<rparr>;
          s1 = s\<lparr>pomodoroState := pomodoroState'\<rparr>
      in case startFocusSession now newId workDuration' Focus s1 of
           (session, s2) \<Rightarrow> ((session, pomodoroState'), s2))"

definition stopPomodoroMode :: "int \<Rightarrow> Storage \<Rightarrow> Storage" where
  "stopPomodoroMode now s =
     (let s1 = (case getCurrentSession s of
                  Some session \<Rightarrow> snd (endFocusSession now (session_id session) False s)
                | None \<Rightarrow> s)
      in s1\<lparr>pomodoroState := (pomodoroState s1)\<lparr>pomodoro_enabled := False\<rparr>\<rparr>)"

definition handlePomodoroSessionEnd ::
  "int \<Rightarrow> string \<Rightarrow> Storage \<Rightarrow> (FocusSession \<times> PomodoroState \<times> Message) option \<times> Storage" where
  "handlePomodoroSessionEnd now newId s =
     (let ps = pomodoroState s in
      if \<not> pomodoro_enabled ps then (None, s)
      else
        (let (nextDuration, nextType, message, newState) =
               (if isOnBreak ps then
                  (workDuration ps, Focus, BreakOver (currentCycle ps), ps\<lparr>isOnBreak := False\<rparr>)
                else
                  (let cyclesCompleted = totalCyclesCompleted ps + 1;
                       isLongBreak = remIsZero cyclesCompleted (sessionsUntilLongBreak ps)
                   in ((if isLongBreak then longBreakDuration ps else breakDuration ps),
                       Break,
                       (if isLongBreak
                        then LongBreakMessage cyclesCompleted (longBreakDuration ps)
                        else BreakMessage (currentCycle ps) (breakDuration ps)),
                       ps\<lparr>isOnBreak := True,
                          currentCycle := currentCycle ps + 1,
                          totalCyclesCompleted := cyclesCompleted\<rparr>)));
             s1 = s\<lparr>pomodoroState := newState\<rparr>
         in case startFocusSession now newId nextDuration nextType s1 of
              (nextSession, s2) \<Rightarrow> (Some (nextSession, newState, message), s2)))"

text \<open>
  The alarm listener for \<open>flowblock-session-end\<close>, without the notification it may show:
  the current session is ended as completed, and in Pomodoro mode the next one is started.
  The two operations run at the same reading of the clock.
\<close>

definition onAlarm :: "int \<Rightarrow> string \<Rightarrow> Storage \<Rightarrow> Storage" where
  "onAlarm now newId s =
     (case getCurrentSession s of
        None \<Rightarrow> s
      | Some session \<Rightarrow>
          (let pomodoroState' = pomodoroState s;
               s1 = snd (endFocusSession now (session_id session) True s)
           in if pomodoro_enabled pomodoroState'
              then snd (handlePomodoroSessionEnd now newId s1)
              else s1))"

section \<open>Defaults and sequences of operations\<close>

definition DEFAULT_SETTINGS :: UserSettings where
  "DEFAULT_SETTINGS = \<lparr>enabled = True, notificationsEnabled = True\<rparr>"

definition DEFAULT_STATS :: Stats where
  "DEFAULT_STATS =
     \<lparr>totalFocusTime = 0, totalBlocks = 0, currentStreak = 0, longestStreak = 0,
      sessionsCompleted = 0\<rparr>"

definition DEFAULT_POMODORO_STATE :: PomodoroState where
  "DEFAULT_POMODORO_STATE =
     \<lparr>pomodoro_enabled = False, workDuration = 25, breakDuration = 5, longBreakDuration = 15,
      sessionsUntilLongBreak = 4, currentCycle = 1, isOnBreak = False,
      totalCyclesCompleted = 0\<rparr>"

definition DEFAULT_WEEKLY_SCHEDULE :: WeeklySchedule where
  "DEFAULT_WEEKLY_SCHEDULE = \<lparr>schedule_enabled = False, slots = []\<rparr>"

text \<open>The storage before anything has been written: every getter answers its default.\<close>

definition emptyStorage :: Storage where
  "emptyStorage =
     \<lparr>blockedSites = [], settings = DEFAULT_SETTINGS, stats = DEFAULT_STATS,
      focusSessions = [], currentSession = None, pausedSession = None,
      pomodoroState = DEFAULT_POMODORO_STATE, weeklySchedule = DEFAULT_WEEKLY_SCHEDULE,
      temporaryBreaks = Map.empty, alarm = None\<rparr>"

text \<open>The session operations of the timer, each with the clock reading it runs at.\<close>

datatype SessionOp =
  Start int string int SessionType
  | End int string bool
  | Pause int
  | Resume int
  | StartPomodoro int string int int int
  | StopPomodoro int
  | PomodoroSessionEnd int string
  | Alarm int string

fun applyOp :: "SessionOp \<Rightarrow> Storage \<Rightarrow> Storage" where
  "applyOp (Start now newId d ty) s = snd (startFocusSession now newId d ty s)"
| "applyOp (End now sessionId c) s = snd (endFocusSession now sessionId c s)"
| "applyOp (Pause now) s = snd (pauseSession now s)"
| "applyOp (Resume now) s = snd (resumeSession now s)"
| "applyOp (StartPomodoro now newId w b l) s = snd (startPomodoroMode now newId w b l s)"
| "applyOp (StopPomodoro now) s = stopPomodoroMode now s"
| "applyOp (PomodoroSessionEnd now newId) s = snd (handlePomodoroSessionEnd now newId s)"
| "applyOp (Alarm now newId) s = onAlarm now newId s"

fun applyOps :: "SessionOp list \<Rightarrow> Storage \<Rightarrow> Storage" where
  "applyOps [] s = s"
| "applyOps (opn # ops) s = applyOps ops (applyOp opn s)"

definition idle :: "Storage \<Rightarrow> bool" where
  "idle s = (currentSession s = None \<and> pausedSession s = None)"

definition pausedOnlyWhileCurrent :: "Storage \<Rightarrow> bool" where
  "pausedOnlyWhileCurrent s = (pausedSession s \<noteq> None \<longrightarrow> currentSession s \<noteq> None)"

section \<open>Example data\<close>

text \<open>
  An installation whose base address is
  \<open>chrome-extension://abcdefghijklmnopabcdefghijklmnop/\<close>, with the host names the URL
  parser returns for the addresses used below.
\<close>

definition extensionPage :: string where
  "extensionPage = ''chrome-extension://abcdefghijklmnopabcdefghijklmnop/blocked.html''"

definition examplePlatform :: Platform where
  "examplePlatform =
     \<lparr>urlHostname = (\<lambda>url.
        if url = ''https://m.facebook.com/x'' then Some ''m.facebook.com''
        else if url = extensionPage then Some ''abcdefghijklmnopabcdefghijklmnop''
        else None),
      extensionUrl = ''chrome-extension://abcdefghijklmnopabcdefghijklmnop/''\<rparr>"

definition exampleClock :: Clock where
  "exampleClock = \<lparr>getDay = 1, getHours = 9, getMinutes = 5\<rparr>"

definition exampleSite :: "string \<Rightarrow> string \<Rightarrow> BlockedSite" where
  "exampleSite i d =
     \<lparr>site_id = i, site_domain = d, category = None, createdAt = 0, blockCount = 0\<rparr>"

definition workSlot :: ScheduleSlot where
  "workSlot =
     \<lparr>slot_id = ''a'', slot_day = 1, slot_startTime = ''09:00'', slot_endTime = ''17:00'',
      slot_enabled = True\<rparr>"

definition facebookStorage :: Storage where
  "facebookStorage = emptyStorage\<lparr>blockedSites := [exampleSite ''1'' ''facebook.com'']\<rparr>"

definition twoMatchStorage :: Storage where
  "twoMatchStorage =
     emptyStorage\<lparr>blockedSites :=
       [exampleSite ''0'' ''twitter.com'', exampleSite ''1'' ''facebook.com'',
        exampleSite ''2'' ''*.facebook.com'']\<rparr>"

text \<open>A blocklist that holds the extension's own host name.\<close>

definition extensionIdStorage :: Storage where
  "extensionIdStorage =
     emptyStorage\<lparr>blockedSites := [exampleSite ''1'' ''abcdefghijklmnopabcdefghijklmnop'']\<rparr>"





text \<open>A session started at time 0 and paused after one minute.\<close>

definition pausedStorage :: Storage where
  "pausedStorage = applyOps [Start 0 ''s1'' 25 Focus, Pause 60000] emptyStorage"


lemmas example_defs =
  examplePlatform_def extensionPage_def exampleClock_def exampleSite_def emptyStorage_def
  DEFAULT_SETTINGS_def DEFAULT_STATS_def DEFAULT_WEEKLY_SCHEDULE_def DEFAULT_POMODORO_STATE_def

lemmas matcher_defs =
  extractDomain_def startsWith_def endsWith_def slice_def stripWww_def toLowerCase_def
  lowerChar_def domainMatchesPattern_def

lemmas timer_defs =
  startFocusSession_def endFocusSession_def getCurrentSession_def getTimeRemaining_def
  pauseSession_def resumeSession_def handleMessage_getTimeRemaining_def roundDiv_def
  toDateString_def

section \<open>Strings and the matcher\<close>

lemma startsWith_prefix: "startsWith s p \<longleftrightarrow> prefix p s"
  unfolding startsWith_def
  by (metis append_eq_conv_conj prefix_def)

lemma endsWith_suffix: "endsWith s p \<longleftrightarrow> suffix p s"
proof
  assume "endsWith s p"
  then have "drop (length s - length p) s = p"
    by (simp add: endsWith_def)
  then have "s = take (length s - length p) s @ p"
    by (metis append_take_drop_id)
  then show "suffix p s"
    by (rule suffixI)
next
  assume "suffix p s"
  then obtain q where "s = q @ p"
    by (auto simp: suffix_def)
  then show "endsWith s p"
    by (simp add: endsWith_def)
qed

lemma stripWww_simps: "stripWww s = (if prefix ''www.'' s then drop 4 s else s)"
  by (simp add: stripWww_def startsWith_prefix slice_def)

text \<open>
  C6: the normalised pattern is the pattern lower-cased with one leading \<open>www.\<close>
  removed. When it begins with \<open>*.\<close>, a domain matches iff it equals the rest of the
  pattern or ends with a dot followed by that rest; otherwise a domain matches iff it equals
  the normalised pattern or ends with a dot followed by it. For \<open>*.x.com\<close> this is:
  the domain is \<open>x.com\<close> or ends with \<open>.x.com\<close>. The domain
  \<open>x.com.evil.com\<close> does not match \<open>x.com\<close>. The matcher is a function of its
  two arguments only.
\<close>

theorem domainMatchesPattern_spec:
  "domainMatchesPattern d p =
     (if prefix ''*.'' (stripWww (toLowerCase p))
      then d = drop 2 (stripWww (toLowerCase p))
           \<or> suffix (''.'' @ drop 2 (stripWww (toLowerCase p))) d
      else d = stripWww (toLowerCase p) \<or> suffix (''.'' @ stripWww (toLowerCase p)) d)
   \<and> (domainMatchesPattern d ''*.x.com'' \<longleftrightarrow> d = ''x.com'' \<or> suffix ''.x.com'' d)
   \<and> \<not> domainMatchesPattern ''x.com.evil.com'' ''x.com''"
proof (intro conjI)
  show "domainMatchesPattern d p =
     (if prefix ''*.'' (stripWww (toLowerCase p))
      then d = drop 2 (stripWww (toLowerCase p))
           \<or> suffix (''.'' @ drop 2 (stripWww (toLowerCase p))) d
      else d = stripWww (toLowerCase p) \<or> suffix (''.'' @ stripWww (toLowerCase p)) d)"
    by (simp add: domainMatchesPattern_def Let_def startsWith_prefix endsWith_suffix slice_def)
  show "domainMatchesPattern d ''*.x.com'' \<longleftrightarrow> d = ''x.com'' \<or> suffix ''.x.com'' d"
    by (simp add: domainMatchesPattern_def Let_def startsWith_def endsWith_suffix slice_def
        stripWww_def toLowerCase_def lowerChar_def)
  show "\<not> domainMatchesPattern ''x.com.evil.com'' ''x.com''"
    by (simp add: domainMatchesPattern_def Let_def startsWith_def endsWith_def slice_def
        stripWww_def toLowerCase_def lowerChar_def)
qed

theorem domainMatchesPattern_spec_witness:
  "domainMatchesPattern ''m.facebook.com'' ''WWW.*.Facebook.com''"
  using domainMatchesPattern_spec [of "''m.facebook.com''" "''WWW.*.Facebook.com''"]
  by (simp add: stripWww_simps toLowerCase_def lowerChar_def suffix_def)

section \<open>The schedule\<close>

lemma natToString_small: "n < 10 \<Longrightarrow> natToString n = [digitChar n]"
  by simp

lemma natToString_two:
  "10 \<le> n \<Longrightarrow> n < 100 \<Longrightarrow> natToString n = [digitChar (n div 10), digitChar (n mod 10)]"
proof -
  assume a: "10 \<le> n" "n < 100"
  then have "n div 10 < 10" by simp
  then have "natToString (n div 10) = [digitChar (n div 10)]" by simp
  with a show ?thesis
    by (subst natToString.simps) (simp del: natToString.simps)
qed

lemma padStart2_two:
  "n < 100 \<Longrightarrow> padStart2 (natToString n) = [digitChar (n div 10), digitChar (n mod 10)]"
proof (cases "n < 10")
  case True
  then show ?thesis
    by (simp add: padStart2_def digitChar_def natToString_small del: natToString.simps)
next
  case False
  assume "n < 100"
  with False show ?thesis
    by (simp add: padStart2_def natToString_two del: natToString.simps)
qed

lemma stringLe_lexord:
  "stringLe a b \<longleftrightarrow> a = b \<or> (a, b) \<in> lexord {(x, y). (of_char x :: nat) < of_char y}"
proof (induction a b rule: stringLe.induct)
  case (1 ys)
  then show ?case by (cases ys) simp_all
next
  case (2 x xs)
  then show ?case by simp
next
  case (3 x xs y ys)
  then show ?case by auto
qed

text \<open>
  C7: a schedule that is disabled or has no slots is always active. Otherwise it is active
  iff some enabled slot is on the clock's weekday and has
  \<open>startTime \<le> HH:MM \<le> endTime\<close>, both ends included, where \<open>HH:MM\<close> is the
  clock's time with hours and minutes padded to two digits and the comparison is the
  lexicographic one on the code units of the strings.
\<close>

theorem isWithinSchedule_spec:
  "isWithinSchedule now sch =
     (if \<not> schedule_enabled sch \<or> slots sch = [] then True
      else (\<exists>slot \<in> set (slots sch).
              slot_enabled slot \<and> slot_day slot = getDay now
              \<and> stringLe (slot_startTime slot) (currentTimeString now)
              \<and> stringLe (currentTimeString now) (slot_endTime slot)))
   \<and> (getHours now < 100 \<and> getMinutes now < 100 \<longrightarrow>
        currentTimeString now =
          [digitChar (getHours now div 10), digitChar (getHours now mod 10), CHR '':'',
           digitChar (getMinutes now div 10), digitChar (getMinutes now mod 10)])
   \<and> (\<forall>a b. stringLe a b \<longleftrightarrow>
          a = b \<or> (a, b) \<in> lexord {(x, y). (of_char x :: nat) < of_char y})"
proof (intro conjI)
  show "isWithinSchedule now sch =
     (if \<not> schedule_enabled sch \<or> slots sch = [] then True
      else (\<exists>slot \<in> set (slots sch).
              slot_enabled slot \<and> slot_day slot = getDay now
              \<and> stringLe (slot_startTime slot) (currentTimeString now)
              \<and> stringLe (currentTimeString now) (slot_endTime slot)))"
    by (auto simp: isWithinSchedule_def list_ex_iff slotMatches_def)
  show "getHours now < 100 \<and> getMinutes now < 100 \<longrightarrow>
        currentTimeString now =
          [digitChar (getHours now div 10), digitChar (getHours now mod 10), CHR '':'',
           digitChar (getMinutes now div 10), digitChar (getMinutes now mod 10)]"
    by (simp add: currentTimeString_def padStart2_two del: natToString.simps)
  show "\<forall>a b. stringLe a b \<longleftrightarrow>
          a = b \<or> (a, b) \<in> lexord {(x, y). (of_char x :: nat) < of_char y}"
    using stringLe_lexord by blast
qed

theorem isWithinSchedule_spec_witness:
  "isWithinSchedule exampleClock \<lparr>schedule_enabled = True, slots = [workSlot]\<rparr>
   \<and> currentTimeString exampleClock = ''09:05''"
  using isWithinSchedule_spec [of exampleClock "\<lparr>schedule_enabled = True, slots = [workSlot]\<rparr>"]
  by (simp add: exampleClock_def workSlot_def digitChar_def)

section \<open>The blocking decision\<close>

lemma isUrlBlocked_fst:
  "fst (isUrlBlocked pf clock now url s) \<longleftrightarrow>
     extractDomain pf url \<noteq> []
     \<and> \<not> startsWith url (extensionUrl pf)
     \<and> enabled (settings s)
     \<and> isWithinSchedule clock (weeklySchedule s)
     \<and> \<not> (\<exists>u. temporaryBreaks s (extractDomain pf url) = Some u \<and> u \<noteq> 0 \<and> now < u)
     \<and> (\<exists>site \<in> set (blockedSites s).
           domainMatchesPattern (extractDomain pf url) (site_domain site))"
  by (auto simp: isUrlBlocked_def Let_def list_ex_iff isWithinSchedule_def split: option.splits)

lemma isUrlBlocked_snd:
  "snd (isUrlBlocked pf clock now url s) =
     (if extractDomain pf url \<noteq> []
         \<and> \<not> startsWith url (extensionUrl pf)
         \<and> enabled (settings s)
         \<and> isWithinSchedule clock (weeklySchedule s)
         \<and> (\<exists>u. temporaryBreaks s (extractDomain pf url) = Some u \<and> u \<noteq> 0 \<and> u \<le> now)
      then s\<lparr>temporaryBreaks := (temporaryBreaks s)(extractDomain pf url := None)\<rparr>
      else s)"
  by (auto simp: isUrlBlocked_def Let_def isWithinSchedule_def split: option.splits)

text \<open>
  C1, as stated: the verdict is a deny iff the host name parses, blocking is enabled, the
  schedule is active, no unexpired break covers the domain and some pattern matches. It
  fails for a page of the extension itself whose host name is on the blocklist: all five
  conditions hold and the verdict is an allow.
\<close>

theorem isUrlBlocked_extension_page_counterexample:
  "\<not> (fst (isUrlBlocked examplePlatform exampleClock 1000 extensionPage extensionIdStorage) \<longleftrightarrow>
        urlHostname examplePlatform extensionPage \<noteq> None
        \<and> enabled (settings extensionIdStorage)
        \<and> isWithinSchedule exampleClock (weeklySchedule extensionIdStorage)
        \<and> (case temporaryBreaks extensionIdStorage
                   (extractDomain examplePlatform extensionPage) of
              None \<Rightarrow> True
            | Some u \<Rightarrow> \<not> 1000 < u)
        \<and> list_ex (\<lambda>site. domainMatchesPattern
                     (extractDomain examplePlatform extensionPage) (site_domain site))
             (blockedSites extensionIdStorage))"
  by (simp add: isUrlBlocked_def extensionIdStorage_def example_defs matcher_defs
      isWithinSchedule_def)

text \<open>
  C1, amended: the verdict is a deny iff the normalised domain is not empty, the address is
  not one of the extension's own pages, blocking is enabled, the schedule is active, no
  unexpired break is stored for the domain and some blocklist pattern matches the domain;
  it is an allow in every other case. The checks run in that order: an expired break of the
  domain is removed from storage exactly when the first four checks have passed, and nothing
  else is written. A host name that does not parse gives the empty domain.
\<close>

theorem isUrlBlocked_decision:
  "(fst (isUrlBlocked pf clock now url s) \<longleftrightarrow>
     extractDomain pf url \<noteq> []
     \<and> \<not> prefix (extensionUrl pf) url
     \<and> enabled (settings s)
     \<and> isWithinSchedule clock (weeklySchedule s)
     \<and> \<not> (\<exists>u. temporaryBreaks s (extractDomain pf url) = Some u \<and> u \<noteq> 0 \<and> now < u)
     \<and> (\<exists>site \<in> set (blockedSites s).
           domainMatchesPattern (extractDomain pf url) (site_domain site)))
   \<and> snd (isUrlBlocked pf clock now url s) =
     (if extractDomain pf url \<noteq> []
         \<and> \<not> prefix (extensionUrl pf) url
         \<and> enabled (settings s)
         \<and> isWithinSchedule clock (weeklySchedule s)
         \<and> (\<exists>u. temporaryBreaks s (extractDomain pf url) = Some u \<and> u \<noteq> 0 \<and> u \<le> now)
      then s\<lparr>temporaryBreaks := (temporaryBreaks s)(extractDomain pf url := None)\<rparr>
      else s)
   \<and> extractDomain pf url =
       (case urlHostname pf url of
          None \<Rightarrow> []
        | Some hostname \<Rightarrow> stripWww (toLowerCase hostname))"
  using isUrlBlocked_fst [of pf clock now url s] isUrlBlocked_snd [of pf clock now url s]
  by (simp add: startsWith_prefix extractDomain_def split: option.splits)

theorem isUrlBlocked_decision_witness:
  "fst (isUrlBlocked examplePlatform exampleClock 1000 ''https://m.facebook.com/x''
          facebookStorage)
   \<and> snd (isUrlBlocked examplePlatform exampleClock 1000 ''https://m.facebook.com/x''
          facebookStorage) = facebookStorage"
  using isUrlBlocked_decision [of examplePlatform exampleClock 1000 "''https://m.facebook.com/x''"
      facebookStorage]
  by (simp add: facebookStorage_def example_defs matcher_defs isWithinSchedule_def suffix_def
      prefix_def)

lemma incrementFirstMatch_Some:
  "\<exists>site \<in> set sites. domainMatchesPattern d (site_domain site) \<Longrightarrow>
   \<exists>pre site post.
     sites = pre @ site # post
     \<and> (\<forall>x \<in> set pre. \<not> domainMatchesPattern d (site_domain x))
     \<and> domainMatchesPattern d (site_domain site)
     \<and> incrementFirstMatch d sites = Some (pre @ site\<lparr>blockCount := blockCount site + 1\<rparr> # post)"
proof (induction sites)
  case Nil
  then show ?case by simp
next
  case (Cons a sites)
  show ?case
  proof (cases "domainMatchesPattern d (site_domain a)")
    case True
    then have "a # sites = [] @ a # sites
       \<and> (\<forall>x \<in> set []. \<not> domainMatchesPattern d (site_domain x))
       \<and> domainMatchesPattern d (site_domain a)
       \<and> incrementFirstMatch d (a # sites) = Some ([] @ a\<lparr>blockCount := blockCount a + 1\<rparr> # sites)"
      by simp
    then show ?thesis by blast
  next
    case False
    with Cons.prems have "\<exists>site \<in> set sites. domainMatchesPattern d (site_domain site)"
      by auto
    from Cons.IH [OF this] obtain pre site post where
      h: "sites = pre @ site # post"
         "\<forall>x \<in> set pre. \<not> domainMatchesPattern d (site_domain x)"
         "domainMatchesPattern d (site_domain site)"
         "incrementFirstMatch d sites = Some (pre @ site\<lparr>blockCount := blockCount site + 1\<rparr> # post)"
      by blast
    with False have "a # sites = (a # pre) @ site # post
       \<and> (\<forall>x \<in> set (a # pre). \<not> domainMatchesPattern d (site_domain x))
       \<and> domainMatchesPattern d (site_domain site)
       \<and> incrementFirstMatch d (a # sites) = Some ((a # pre) @ site\<lparr>blockCount := blockCount site + 1\<rparr> # post)"
      by simp
    then show ?thesis by blast
  qed
qed

text \<open>
  C9: after a deny, \<open>incrementBlockCount\<close> raises by one the \<open>blockCount\<close> of the first
  blocklist entry whose pattern matches the domain and the \<open>totalBlocks\<close> counter. The
  entries before and after it, the other fields of that entry, the other fields of the
  statistics and the rest of the storage stay as they were, also when later entries match.
\<close>

theorem incrementBlockCount_first_match:
  assumes "isUrlBlocked pf clock now url s = (True, s1)"
  shows "\<exists>pre site post.
     blockedSites s1 = pre @ site # post
     \<and> (\<forall>x \<in> set pre. \<not> domainMatchesPattern (extractDomain pf url) (site_domain x))
     \<and> domainMatchesPattern (extractDomain pf url) (site_domain site)
     \<and> incrementBlockCount pf url s1 =
         s1\<lparr>blockedSites := pre @ site\<lparr>blockCount := blockCount site + 1\<rparr> # post,
            stats := (stats s1)\<lparr>totalBlocks := totalBlocks (stats s1) + 1\<rparr>\<rparr>"
proof -
  from assms have f: "fst (isUrlBlocked pf clock now url s)"
    and s1: "s1 = snd (isUrlBlocked pf clock now url s)"
    by simp_all
  from s1 have "blockedSites s1 = blockedSites s"
    by (simp add: isUrlBlocked_snd)
  moreover from f have "\<exists>site \<in> set (blockedSites s).
      domainMatchesPattern (extractDomain pf url) (site_domain site)"
    by (simp add: isUrlBlocked_fst)
  ultimately have "\<exists>site \<in> set (blockedSites s1).
      domainMatchesPattern (extractDomain pf url) (site_domain site)"
    by simp
  from incrementFirstMatch_Some [OF this] obtain pre site post where
    h: "blockedSites s1 = pre @ site # post"
       "\<forall>x \<in> set pre. \<not> domainMatchesPattern (extractDomain pf url) (site_domain x)"
       "domainMatchesPattern (extractDomain pf url) (site_domain site)"
       "incrementFirstMatch (extractDomain pf url) (blockedSites s1) =
          Some (pre @ site\<lparr>blockCount := blockCount site + 1\<rparr> # post)"
    by blast
  from h(4) have "incrementBlockCount pf url s1 =
         s1\<lparr>blockedSites := pre @ site\<lparr>blockCount := blockCount site + 1\<rparr> # post,
            stats := (stats s1)\<lparr>totalBlocks := totalBlocks (stats s1) + 1\<rparr>\<rparr>"
    by (simp add: incrementBlockCount_def Let_def)
  with h(1,2,3) show ?thesis by blast
qed

theorem incrementBlockCount_first_match_witness:
  "isUrlBlocked examplePlatform exampleClock 1000 ''https://m.facebook.com/x'' twoMatchStorage
     = (True, twoMatchStorage)
   \<and> (\<exists>pre site post.
         blockedSites twoMatchStorage = pre @ site # post
         \<and> (\<forall>x \<in> set pre.
               \<not> domainMatchesPattern
                   (extractDomain examplePlatform ''https://m.facebook.com/x'') (site_domain x))
         \<and> domainMatchesPattern
             (extractDomain examplePlatform ''https://m.facebook.com/x'') (site_domain site)
         \<and> incrementBlockCount examplePlatform ''https://m.facebook.com/x'' twoMatchStorage =
             twoMatchStorage
               \<lparr>blockedSites := pre @ site\<lparr>blockCount := blockCount site + 1\<rparr> # post,
                stats := (stats twoMatchStorage)
                  \<lparr>totalBlocks := totalBlocks (stats twoMatchStorage) + 1\<rparr>\<rparr>)
   \<and> map blockCount
       (blockedSites (incrementBlockCount examplePlatform ''https://m.facebook.com/x''
          twoMatchStorage)) = [0, 1, 0]
   \<and> totalBlocks (stats (incrementBlockCount examplePlatform ''https://m.facebook.com/x''
          twoMatchStorage)) = 1"
proof -
  have h: "isUrlBlocked examplePlatform exampleClock 1000 ''https://m.facebook.com/x''
      twoMatchStorage = (True, twoMatchStorage)"
    by (simp add: isUrlBlocked_def twoMatchStorage_def example_defs matcher_defs
        isWithinSchedule_def)
  have c: "map blockCount
       (blockedSites (incrementBlockCount examplePlatform ''https://m.facebook.com/x''
          twoMatchStorage)) = [0, 1, 0]
   \<and> totalBlocks (stats (incrementBlockCount examplePlatform ''https://m.facebook.com/x''
          twoMatchStorage)) = 1"
    by (simp add: incrementBlockCount_def twoMatchStorage_def example_defs matcher_defs)
  from h incrementBlockCount_first_match [OF h] c show ?thesis
    by (intro conjI) (elim conjE, assumption)+
qed

section \<open>The session timer\<close>

lemma startFocusSession_current:
  "currentSession (snd (startFocusSession now newId d ty s)) =
     Some \<lparr>session_id = newId, startTime = now, endTime = None, duration = d,
           completed = False, session_type = ty\<rparr>"
  by (simp add: startFocusSession_def Let_def split: option.splits)

lemma startFocusSession_fst:
  "fst (startFocusSession now newId d ty s) =
     \<lparr>session_id = newId, startTime = now, endTime = None, duration = d,
      completed = False, session_type = ty\<rparr>"
  by (simp add: startFocusSession_def Let_def)

lemma startFocusSession_paused:
  "pausedSession (snd (startFocusSession now newId d ty s)) =
     (if currentSession s = None then pausedSession s else None)"
  by (simp add: startFocusSession_def Let_def split: option.splits)


lemma endFocusSession_fail:
  "currentSession s = None \<or> (\<exists>cur. currentSession s = Some cur \<and> session_id cur \<noteq> sid) \<Longrightarrow>
   endFocusSession now sid c s = (Inl SessionNotFound, s)"
  by (auto simp: endFocusSession_def)

lemma endFocusSession_ok:
  "currentSession s = Some cur \<Longrightarrow> session_id cur = sid \<Longrightarrow>
   fst (endFocusSession now sid c s) = Inr ()
   \<and> currentSession (snd (endFocusSession now sid c s)) = None
   \<and> pausedSession (snd (endFocusSession now sid c s)) = None
   \<and> pomodoroState (snd (endFocusSession now sid c s)) = pomodoroState s"
  by (simp add: endFocusSession_def Let_def)

lemma endFocusSession_fst_iff:
  "fst (endFocusSession now sid c s) = Inl SessionNotFound \<longleftrightarrow>
     currentSession s = None \<or> (\<exists>cur. currentSession s = Some cur \<and> session_id cur \<noteq> sid)"
  by (auto simp: endFocusSession_def Let_def split: option.splits)

text \<open>
  C8: starting a focus session and ending it as completed with the identifier returned
  succeeds; the remaining time is then 0, and ending again with the same identifier fails
  with \<open>SessionNotFound\<close>. In general \<open>endFocusSession\<close> fails with
  \<open>SessionNotFound\<close> exactly when there is no current session or its identifier is not
  the one given, and then the storage is unchanged.
\<close>

theorem endFocusSession_roundtrip:
  "(\<forall>session s1 r s2.
      startFocusSession now0 newId d Focus s = (session, s1)
      \<and> endFocusSession now1 (session_id session) True s1 = (r, s2) \<longrightarrow>
        r = Inr ()
        \<and> getTimeRemaining now2 s2 = 0
        \<and> handleMessage_getTimeRemaining now2 s2 = 0
        \<and> endFocusSession now3 (session_id session) c3 s2 = (Inl SessionNotFound, s2))
   \<and> (fst (endFocusSession now sid c t) = Inl SessionNotFound \<longleftrightarrow>
        currentSession t = None
        \<or> (\<exists>cur. currentSession t = Some cur \<and> session_id cur \<noteq> sid))
   \<and> (fst (endFocusSession now sid c t) = Inl SessionNotFound \<longrightarrow>
        snd (endFocusSession now sid c t) = t)"
proof (intro conjI allI impI)
  fix session s1 r s2
  assume a: "startFocusSession now0 newId d Focus s = (session, s1)
      \<and> endFocusSession now1 (session_id session) True s1 = (r, s2)"
  then have cur: "currentSession s1 = Some session"
    using startFocusSession_current [of now0 newId d Focus s]
      startFocusSession_fst [of now0 newId d Focus s] by simp
  from endFocusSession_ok [OF cur refl, of now1 True] a
  have r: "r = Inr ()" and none: "currentSession s2 = None"
    by simp_all
  show "r = Inr ()" by (rule r)
  from none show "getTimeRemaining now2 s2 = 0"
    by (simp add: getTimeRemaining_def getCurrentSession_def)
  from none show "handleMessage_getTimeRemaining now2 s2 = 0"
    by (simp add: handleMessage_getTimeRemaining_def getCurrentSession_def)
  from none show "endFocusSession now3 (session_id session) c3 s2 = (Inl SessionNotFound, s2)"
    by (simp add: endFocusSession_fail)
next
  show "fst (endFocusSession now sid c t) = Inl SessionNotFound \<longleftrightarrow>
        currentSession t = None
        \<or> (\<exists>cur. currentSession t = Some cur \<and> session_id cur \<noteq> sid)"
    by (rule endFocusSession_fst_iff)
next
  assume "fst (endFocusSession now sid c t) = Inl SessionNotFound"
  then have "currentSession t = None
        \<or> (\<exists>cur. currentSession t = Some cur \<and> session_id cur \<noteq> sid)"
    by (simp add: endFocusSession_fst_iff)
  then show "snd (endFocusSession now sid c t) = t"
    by (simp add: endFocusSession_fail)
qed

theorem endFocusSession_roundtrip_witness:
  "endFocusSession 1500000 ''s1'' True (snd (startFocusSession 0 ''s1'' 25 Focus emptyStorage))
     = (Inr (), applyOps [Start 0 ''s1'' 25 Focus, End 1500000 ''s1'' True] emptyStorage)
   \<and> getTimeRemaining 1500001
       (applyOps [Start 0 ''s1'' 25 Focus, End 1500000 ''s1'' True] emptyStorage) = 0
   \<and> endFocusSession 1500002 ''s1'' True
       (applyOps [Start 0 ''s1'' 25 Focus, End 1500000 ''s1'' True] emptyStorage)
     = (Inl SessionNotFound,
        applyOps [Start 0 ''s1'' 25 Focus, End 1500000 ''s1'' True] emptyStorage)
   \<and> endFocusSession 5 ''other'' False (snd (startFocusSession 0 ''s1'' 25 Focus emptyStorage))
     = (Inl SessionNotFound, snd (startFocusSession 0 ''s1'' 25 Focus emptyStorage))"
proof -
  have e: "endFocusSession 1500000 ''s1'' True
        (snd (startFocusSession 0 ''s1'' 25 Focus emptyStorage))
     = (Inr (), applyOps [Start 0 ''s1'' 25 Focus, End 1500000 ''s1'' True] emptyStorage)"
    by (simp add: endFocusSession_def startFocusSession_def Let_def emptyStorage_def)
  have st: "startFocusSession 0 ''s1'' 25 Focus emptyStorage =
      (fst (startFocusSession 0 ''s1'' 25 Focus emptyStorage),
       snd (startFocusSession 0 ''s1'' 25 Focus emptyStorage))"
    by simp
  have i: "session_id (fst (startFocusSession 0 ''s1'' 25 Focus emptyStorage)) = ''s1''"
    by (simp add: startFocusSession_def Let_def)
  have f: "fst (endFocusSession 5 ''other'' False
      (snd (startFocusSession 0 ''s1'' 25 Focus emptyStorage))) = Inl SessionNotFound"
    by (simp add: endFocusSession_def startFocusSession_def Let_def emptyStorage_def)
  from endFocusSession_roundtrip [where ?now0.0 = 0 and newId = "''s1''" and d = 25
      and s = emptyStorage and ?now1.0 = 1500000 and ?now2.0 = 1500001 and ?now3.0 = 1500002
      and ?c3.0 = True and now = 5 and sid = "''other''" and c = False
      and t = "snd (startFocusSession 0 ''s1'' 25 Focus emptyStorage)"]
    e st i f
  show ?thesis
    by (metis prod.collapse)
qed

text \<open>
  C2 says that a break session ended as completed leaves the statistics alone.
  \<open>endFocusSession\<close> never reads the session's type: a five-minute break that ends as
  completed adds five minutes to \<open>totalFocusTime\<close>, one to \<open>sessionsCompleted\<close>, and
  sets both streaks.
\<close>

theorem endFocusSession_break_counts_as_focus:
  "stats (applyOps [Start 0 ''b1'' 5 Break, End 300000 ''b1'' True] emptyStorage) =
     \<lparr>totalFocusTime = 5, totalBlocks = 0, currentStreak = 1, longestStreak = 1,
      sessionsCompleted = 1\<rparr>"
  by (simp add: timer_defs example_defs Let_def)

text \<open>
  C3 says that a focus session completed today and another completed the next day make the
  streak 2. The date compared with today is that of the start of the session being ended,
  so a session that starts and ends on the next day leaves the streak at 1; after a third
  session two days later the longest streak is still 1.
\<close>

theorem endFocusSession_streak_next_day:
  "currentStreak (stats (applyOps
      [Start 0 ''a'' 25 Focus, End 1500000 ''a'' True,
       Start 86400000 ''b'' 25 Focus, End 87900000 ''b'' True] emptyStorage)) = 1
   \<and> longestStreak (stats (applyOps
      [Start 0 ''a'' 25 Focus, End 1500000 ''a'' True,
       Start 86400000 ''b'' 25 Focus, End 87900000 ''b'' True,
       Start 259200000 ''c'' 25 Focus, End 260700000 ''c'' True] emptyStorage)) = 1"
  by (simp add: timer_defs example_defs Let_def)


section \<open>The Pomodoro cycle\<close>

lemma remIsZero_mod: "remIsZero a b \<longleftrightarrow> b \<noteq> 0 \<and> b dvd a"
  by (auto simp: remIsZero_def)

lemma handlePomodoroSessionEnd_disabled:
  "\<not> pomodoro_enabled (pomodoroState s) \<Longrightarrow> handlePomodoroSessionEnd now newId s = (None, s)"
  by (simp add: handlePomodoroSessionEnd_def)



lemma startPomodoroMode_snd:
  "snd (startPomodoroMode now newId w b l s) =
     snd (startFocusSession now newId w Focus
       (s\<lparr>pomodoroState := (pomodoroState s)\<lparr>pomodoro_enabled := True, workDuration := w,
          breakDuration := b, longBreakDuration := l, currentCycle := 1, isOnBreak := False,
          totalCyclesCompleted := 0\<rparr>\<rparr>))"
  by (simp add: startPomodoroMode_def Let_def split: prod.splits)


lemma handlePomodoroSessionEnd_snd:
  "pomodoro_enabled (pomodoroState s) \<Longrightarrow>
   snd (handlePomodoroSessionEnd now newId s) =
     (if isOnBreak (pomodoroState s)
      then snd (startFocusSession now newId (workDuration (pomodoroState s)) Focus
             (s\<lparr>pomodoroState := (pomodoroState s)\<lparr>isOnBreak := False\<rparr>\<rparr>))
      else snd (startFocusSession now newId
             (if remIsZero (totalCyclesCompleted (pomodoroState s) + 1)
                   (sessionsUntilLongBreak (pomodoroState s))
              then longBreakDuration (pomodoroState s) else breakDuration (pomodoroState s))
             Break
             (s\<lparr>pomodoroState := (pomodoroState s)\<lparr>isOnBreak := True,
                  currentCycle := currentCycle (pomodoroState s) + 1,
                  totalCyclesCompleted := totalCyclesCompleted (pomodoroState s) + 1\<rparr>\<rparr>)))"
  by (simp add: handlePomodoroSessionEnd_def Let_def split: prod.splits)










section \<open>The paused record\<close>

lemma startFocusSession_inv:
  "pausedOnlyWhileCurrent (snd (startFocusSession now newId d ty s))"
  by (simp add: pausedOnlyWhileCurrent_def startFocusSession_current)

lemma endFocusSession_cases:
  "snd (endFocusSession now sid c s) = s
   \<or> (fst (endFocusSession now sid c s) = Inr ()
       \<and> currentSession (snd (endFocusSession now sid c s)) = None
       \<and> pausedSession (snd (endFocusSession now sid c s)) = None)"
proof (cases "currentSession s")
  case None
  then show ?thesis by (simp add: endFocusSession_fail)
next
  case (Some cur)
  show ?thesis
  proof (cases "session_id cur = sid")
    case True
    from endFocusSession_ok [OF Some True, of now c] show ?thesis by simp
  next
    case False
    with Some show ?thesis by (simp add: endFocusSession_fail)
  qed
qed

lemma endFocusSession_inv:
  "pausedOnlyWhileCurrent s \<Longrightarrow> pausedOnlyWhileCurrent (snd (endFocusSession now sid c s))"
  using endFocusSession_cases [of now sid c s]
  by (auto simp: pausedOnlyWhileCurrent_def)

lemma pauseSession_cases:
  "(fst (pauseSession now s) = Inr () \<and> currentSession s \<noteq> None
      \<and> currentSession (snd (pauseSession now s)) = currentSession s
      \<and> pausedSession (snd (pauseSession now s)) =
          Some \<lparr>pausedAt = now, remainingSeconds = getTimeRemaining now s\<rparr>)
   \<or> (fst (pauseSession now s) \<noteq> Inr () \<and> snd (pauseSession now s) = s)"
  by (simp add: pauseSession_def getCurrentSession_def Let_def split: option.splits)

lemma pauseSession_inv:
  "pausedOnlyWhileCurrent s \<Longrightarrow> pausedOnlyWhileCurrent (snd (pauseSession now s))"
  using pauseSession_cases [of now s]
  by (auto simp: pausedOnlyWhileCurrent_def)

lemma resumeSession_cases:
  "(fst (resumeSession now s) = Inr () \<and> currentSession (snd (resumeSession now s)) \<noteq> None
      \<and> pausedSession s \<noteq> None \<and> pausedSession (snd (resumeSession now s)) = None)
   \<or> (fst (resumeSession now s) \<noteq> Inr () \<and> snd (resumeSession now s) = s)"
  by (simp add: resumeSession_def getCurrentSession_def Let_def split: option.splits)

lemma resumeSession_inv:
  "pausedOnlyWhileCurrent s \<Longrightarrow> pausedOnlyWhileCurrent (snd (resumeSession now s))"
  using resumeSession_cases [of now s]
  by (auto simp: pausedOnlyWhileCurrent_def)

lemma pausedOnlyWhileCurrent_pomodoroState_update:
  "pausedOnlyWhileCurrent (s\<lparr>pomodoroState := ps\<rparr>) = pausedOnlyWhileCurrent s"
  by (simp add: pausedOnlyWhileCurrent_def)

lemma stopPomodoroMode_inv:
  "pausedOnlyWhileCurrent s \<Longrightarrow> pausedOnlyWhileCurrent (stopPomodoroMode now s)"
  by (simp add: stopPomodoroMode_def getCurrentSession_def Let_def
      pausedOnlyWhileCurrent_pomodoroState_update endFocusSession_inv split: option.splits)

lemma handlePomodoroSessionEnd_inv:
  "pausedOnlyWhileCurrent s \<Longrightarrow>
   pausedOnlyWhileCurrent (snd (handlePomodoroSessionEnd now newId s))"
proof (cases "pomodoro_enabled (pomodoroState s)")
  case True
  then show ?thesis
    by (simp add: handlePomodoroSessionEnd_snd startFocusSession_inv)
next
  case False
  assume "pausedOnlyWhileCurrent s"
  with False show ?thesis
    by (simp add: handlePomodoroSessionEnd_disabled)
qed

lemma onAlarm_inv:
  "pausedOnlyWhileCurrent s \<Longrightarrow> pausedOnlyWhileCurrent (onAlarm now newId s)"
  by (simp add: onAlarm_def getCurrentSession_def Let_def endFocusSession_inv
      handlePomodoroSessionEnd_inv split: option.splits)

lemma applyOp_inv:
  "pausedOnlyWhileCurrent s \<Longrightarrow> pausedOnlyWhileCurrent (applyOp opn s)"
proof (cases opn)
  case (Start now newId d ty)
  then show ?thesis by (simp add: startFocusSession_inv)
next
  case (End now sid c)
  assume "pausedOnlyWhileCurrent s"
  with End show ?thesis by (simp add: endFocusSession_inv)
next
  case (Pause now)
  assume "pausedOnlyWhileCurrent s"
  with Pause show ?thesis by (simp add: pauseSession_inv)
next
  case (Resume now)
  assume "pausedOnlyWhileCurrent s"
  with Resume show ?thesis by (simp add: resumeSession_inv)
next
  case (StartPomodoro now newId w b l)
  then show ?thesis by (simp add: startPomodoroMode_snd startFocusSession_inv)
next
  case (StopPomodoro now)
  assume "pausedOnlyWhileCurrent s"
  with StopPomodoro show ?thesis by (simp add: stopPomodoroMode_inv)
next
  case (PomodoroSessionEnd now newId)
  assume "pausedOnlyWhileCurrent s"
  with PomodoroSessionEnd show ?thesis by (simp add: handlePomodoroSessionEnd_inv)
next
  case (Alarm now newId)
  assume "pausedOnlyWhileCurrent s"
  with Alarm show ?thesis by (simp add: onAlarm_inv)
qed

lemma applyOps_inv:
  "pausedOnlyWhileCurrent s \<Longrightarrow> pausedOnlyWhileCurrent (applyOps ops s)"
  by (induction ops arbitrary: s) (simp_all add: applyOp_inv del: applyOp.simps)

lemma idle_inv: "idle s \<Longrightarrow> pausedOnlyWhileCurrent s"
  by (simp add: idle_def pausedOnlyWhileCurrent_def)

text \<open>
  C10: a paused-session record exists only while a current-session record exists, and every
  session operation (start, end, pause, resume, the Pomodoro operations and the alarm)
  keeps it so. In such a state a start leaves no paused record and a current session; a
  successful end leaves neither record; a successful resume leaves no paused record; a
  pause changes the paused record only when there is a current session, which it keeps.
  Hence after any sequence of operations from an idle state a paused record is never found
  without a current session.
\<close>

theorem paused_only_while_current:
  "(pausedOnlyWhileCurrent s \<longrightarrow> pausedOnlyWhileCurrent (applyOp opn s))
   \<and> (pausedOnlyWhileCurrent s \<longrightarrow>
        pausedSession (snd (startFocusSession now newId d ty s)) = None
        \<and> currentSession (snd (startFocusSession now newId d ty s)) \<noteq> None)
   \<and> (fst (endFocusSession now sid c s) = Inr () \<longrightarrow>
        currentSession (snd (endFocusSession now sid c s)) = None
        \<and> pausedSession (snd (endFocusSession now sid c s)) = None)
   \<and> (fst (resumeSession now s) = Inr () \<longrightarrow>
        pausedSession (snd (resumeSession now s)) = None)
   \<and> (pausedSession (snd (pauseSession now s)) \<noteq> pausedSession s \<longrightarrow>
        currentSession s \<noteq> None \<and> currentSession (snd (pauseSession now s)) \<noteq> None)
   \<and> (idle s0 \<longrightarrow> pausedOnlyWhileCurrent (applyOps ops s0))"
proof (intro conjI impI)
  assume "pausedOnlyWhileCurrent s"
  then show "pausedOnlyWhileCurrent (applyOp opn s)" by (rule applyOp_inv)
next
  assume "pausedOnlyWhileCurrent s"
  then show "pausedSession (snd (startFocusSession now newId d ty s)) = None"
    by (auto simp: startFocusSession_paused pausedOnlyWhileCurrent_def)
next
  show "currentSession (snd (startFocusSession now newId d ty s)) \<noteq> None"
    by (simp add: startFocusSession_current)
next
  assume "fst (endFocusSession now sid c s) = Inr ()"
  then have "currentSession (snd (endFocusSession now sid c s)) = None
      \<and> pausedSession (snd (endFocusSession now sid c s)) = None"
    by (auto simp: endFocusSession_def Let_def split: option.splits if_splits)
  then show "currentSession (snd (endFocusSession now sid c s)) = None"
    and "pausedSession (snd (endFocusSession now sid c s)) = None"
    by simp_all
next
  assume "fst (resumeSession now s) = Inr ()"
  with resumeSession_cases [of now s]
  show "pausedSession (snd (resumeSession now s)) = None" by auto
next
  assume a: "pausedSession (snd (pauseSession now s)) \<noteq> pausedSession s"
  with pauseSession_cases [of now s] show "currentSession s \<noteq> None" by auto
  from a pauseSession_cases [of now s]
  show "currentSession (snd (pauseSession now s)) \<noteq> None" by auto
next
  assume "idle s0"
  then show "pausedOnlyWhileCurrent (applyOps ops s0)"
    by (simp add: idle_inv applyOps_inv)
qed

theorem paused_only_while_current_witness:
  "pausedOnlyWhileCurrent pausedStorage
   \<and> pausedSession pausedStorage \<noteq> None
   \<and> fst (endFocusSession 120000 ''s1'' False pausedStorage) = Inr ()
   \<and> fst (resumeSession 120000 pausedStorage) = Inr ()
   \<and> pausedSession (snd (pauseSession 120000 pausedStorage)) \<noteq> pausedSession pausedStorage
   \<and> idle emptyStorage
   \<and> pausedOnlyWhileCurrent (applyOp (Resume 120000) pausedStorage)
   \<and> pausedSession (snd (startFocusSession 120000 ''s2'' 25 Focus pausedStorage)) = None
   \<and> currentSession (snd (endFocusSession 120000 ''s1'' False pausedStorage)) = None
   \<and> pausedSession (snd (endFocusSession 120000 ''s1'' False pausedStorage)) = None
   \<and> pausedSession (snd (resumeSession 120000 pausedStorage)) = None
   \<and> currentSession pausedStorage \<noteq> None
   \<and> pausedOnlyWhileCurrent
        (applyOps [Start 0 ''s1'' 25 Focus, Pause 60000, End 120000 ''s1'' False] emptyStorage)"
proof -
  have h1: "pausedOnlyWhileCurrent pausedStorage"
    by (simp add: pausedStorage_def pausedOnlyWhileCurrent_def timer_defs example_defs Let_def)
  have h2: "pausedSession pausedStorage \<noteq> None"
    by (simp add: pausedStorage_def timer_defs example_defs Let_def)
  have h3: "fst (endFocusSession 120000 ''s1'' False pausedStorage) = Inr ()"
    by (simp add: pausedStorage_def timer_defs example_defs Let_def)
  have h4: "fst (resumeSession 120000 pausedStorage) = Inr ()"
    by (simp add: pausedStorage_def timer_defs example_defs Let_def)
  have h5: "pausedSession (snd (pauseSession 120000 pausedStorage)) \<noteq> pausedSession pausedStorage"
    by (simp add: pausedStorage_def timer_defs example_defs Let_def)
  have h6: "idle emptyStorage"
    by (simp add: idle_def emptyStorage_def)
  from paused_only_while_current [where s = pausedStorage and opn = "Resume 120000"
      and now = 120000 and newId = "''s2''" and d = 25 and ty = Focus and sid = "''s1''"
      and c = False and ?s0.0 = emptyStorage
      and ops = "[Start 0 ''s1'' 25 Focus, Pause 60000, End 120000 ''s1'' False]"]
    h1 h2 h3 h4 h5 h6
  show ?thesis by simp
qed

end
